theory Spec2Isabelle
  imports Main "HOL-Library.Word"
begin

section \<open>Memory: blocks, pointers, new[], delete[] and memcpy\<close>

text \<open>
  \<open>ArVideoExternalSource\<close> shares raw memory with its caller: it keeps an
  \<open>unsigned char *\<close> that is either a block it obtained with \<open>new[]\<close> or a pointer the
  caller handed in. The claims about copying, freeing and reuse depend on that aliasing, so
  memory is an explicit store. A pointer is null or a block number with a byte offset; a
  block is live (its bytes) or released; block numbers are never reused, so a dangling
  pointer stays recognisable. \<open>capacity\<close> bounds the bytes of all live blocks: it decides
  when \<open>new[]\<close> cannot obtain memory.
\<close>

type_synonym byte = "8 word"

text \<open>C++ \<open>int\<close>: 32 bits, two's complement, read with \<open>sint\<close>.\<close>

type_synonym cint = "32 word"

datatype pointer = Null | Ptr nat nat

record heap =
  cells :: "byte list option list"
  capacity :: nat

definition used :: "heap \<Rightarrow> nat" where
  "used h = sum_list (map (\<lambda>c. case c of None \<Rightarrow> 0 | Some bs \<Rightarrow> length bs) (cells h))"

definition block :: "heap \<Rightarrow> nat \<Rightarrow> byte list option" where
  "block h b = (if b < length (cells h) then cells h ! b else None)"

text \<open>
  \<open>new unsigned char[n]\<close> with \<open>n\<close> the value of an \<open>int\<close> expression. A negative
  \<open>n\<close> and a request beyond the capacity both make \<open>new[]\<close> throw (\<open>None\<close> here; the
  caller turns it into the exception). The bytes of a new block are indeterminate in C++;
  they are zero here, and the only caller overwrites all of them before anything reads
  them.
\<close>

definition new_array :: "heap \<Rightarrow> int \<Rightarrow> (pointer \<times> heap) option" where
  "new_array h n =
     (if n < 0 \<or> capacity h < used h + nat n then None
      else Some (Ptr (length (cells h)) 0,
                 h\<lparr>cells := cells h @ [Some (replicate (nat n) 0)]\<rparr>))"

text \<open>
  \<open>delete[] p\<close>: nothing for the null pointer; otherwise \<open>p\<close> must be the start of a
  live block, which is released. Anything else is undefined behaviour (\<open>None\<close>).
\<close>

definition delete_array :: "heap \<Rightarrow> pointer \<Rightarrow> heap option" where
  "delete_array h p =
     (case p of
        Null \<Rightarrow> Some h
      | Ptr b off \<Rightarrow>
          (if off = 0 \<and> block h b \<noteq> None then Some (h\<lparr>cells := (cells h)[b := None]\<rparr>)
           else None))"

text \<open>Reading and writing a range of bytes; \<open>None\<close> when the range is not inside a live block.\<close>

definition read_bytes :: "heap \<Rightarrow> pointer \<Rightarrow> nat \<Rightarrow> byte list option" where
  "read_bytes h p n =
     (case p of
        Null \<Rightarrow> None
      | Ptr b off \<Rightarrow>
          (case block h b of
             None \<Rightarrow> None
           | Some bs \<Rightarrow> if off + n \<le> length bs then Some (take n (drop off bs)) else None))"

definition write_bytes :: "heap \<Rightarrow> pointer \<Rightarrow> byte list \<Rightarrow> heap option" where
  "write_bytes h p xs =
     (case p of
        Null \<Rightarrow> None
      | Ptr b off \<Rightarrow>
          (case block h b of
             None \<Rightarrow> None
           | Some bs \<Rightarrow>
               if off + length xs \<le> length bs
               then Some (h\<lparr>cells := (cells h)[b := Some (take off bs @ xs @ drop (off + length xs) bs)]\<rparr>)
               else None))"

definition ptr_add :: "pointer \<Rightarrow> nat \<Rightarrow> pointer" where
  "ptr_add p k = (case p of Null \<Rightarrow> Null | Ptr b off \<Rightarrow> Ptr b (off + k))"

definition overlap :: "pointer \<Rightarrow> pointer \<Rightarrow> nat \<Rightarrow> bool" where
  "overlap p q n =
     (case (p, q) of
        (Ptr b1 o1, Ptr b2 o2) \<Rightarrow> b1 = b2 \<and> o1 < o2 + n \<and> o2 < o1 + n
      | _ \<Rightarrow> False)"

text \<open>
  Two ranges of bytes, \<open>n\<close> from \<open>p\<close> and \<open>m\<close> from \<open>q\<close>, that share no byte;
  whether a pointer points into a live block; and the layout of the memory: for every block
  ever handed out, its size, or that it is released.
\<close>

definition disjoint :: "pointer \<Rightarrow> nat \<Rightarrow> pointer \<Rightarrow> nat \<Rightarrow> bool" where
  "disjoint p n q m =
     (case (p, q) of
        (Ptr b1 o1, Ptr b2 o2) \<Rightarrow> b1 \<noteq> b2 \<or> o1 + n \<le> o2 \<or> o2 + m \<le> o1
      | _ \<Rightarrow> True)"

definition live :: "heap \<Rightarrow> pointer \<Rightarrow> bool" where
  "live h p = (case p of Null \<Rightarrow> False | Ptr b off \<Rightarrow> block h b \<noteq> None)"


text \<open>
  \<open>memcpy(dst, src, n)\<close> with \<open>n\<close> the value of an \<open>int\<close> expression, converted to
  \<open>size_t\<close>. A negative \<open>n\<close> becomes a count larger than any block, so the copy runs out
  of bounds; source and destination must both be inside live blocks and must not overlap.
  Every violation is undefined behaviour (\<open>None\<close>).
\<close>

definition memcpy :: "heap \<Rightarrow> pointer \<Rightarrow> pointer \<Rightarrow> int \<Rightarrow> heap option" where
  "memcpy h dst src n =
     (if n < 0 \<or> overlap dst src (nat n) then None
      else (case read_bytes h src (nat n) of
              None \<Rightarrow> None
            | Some xs \<Rightarrow> write_bytes h dst xs))"

text \<open>
  Signed \<open>int\<close> multiplication: a product outside the range of \<open>int\<close> is undefined
  behaviour (\<open>None\<close>).
\<close>

definition int_mul :: "cint \<Rightarrow> cint \<Rightarrow> cint option" where
  "int_mul a b =
     (let r = sint a * sint b
      in if - (2 ^ 31) \<le> r \<and> r < 2 ^ 31 then Some (word_of_int r) else None)"


section \<open>The class ArVideoExternalSource\<close>

text \<open>
  Modelled from the spec: \<open>ArMutex\<close> is declared in \<open>Aria.h\<close>, which is not part of
  the source at hand. The spec describes one mutual-exclusion lock guarding the buffer, taken
  by \<open>lock()\<close> and given back by \<open>unlock()\<close>. In this sequential model \<open>myDataMutex\<close>
  is the number of \<open>lock()\<close> calls not yet matched by an \<open>unlock()\<close>; an
  \<open>unlock()\<close> with none outstanding, which the spec calls a programmer error, leaves it
  at 0.
\<close>

record ArVideoExternalSource =
  myName :: string
  myOpen :: bool
  myUpdated :: bool
  myWidth :: cint
  myHeight :: cint
  myDataAllocated :: bool
  myData :: pointer
  myDataMutex :: nat

text \<open>
  What a call does: it returns a value, leaving the object and the memory in a new state; or
  it throws, and the object and the memory stay as they were at the throw; or it runs into
  undefined behaviour, after which nothing is known.
\<close>

datatype exn = BadAlloc

datatype 'a outcome =
    Returns 'a ArVideoExternalSource heap
  | Throws exn ArVideoExternalSource heap
  | Undefined

text \<open>The constructor.\<close>

definition construct :: "string \<Rightarrow> ArVideoExternalSource" where
  "construct name =
     \<lparr>myName = name, myOpen = False, myUpdated = False,
      myWidth = 0, myHeight = 0,
      myDataAllocated = False, myData = Null, myDataMutex = 0\<rparr>"

definition lock :: "ArVideoExternalSource \<Rightarrow> ArVideoExternalSource" where
  "lock s = s\<lparr>myDataMutex := Suc (myDataMutex s)\<rparr>"

definition unlock :: "ArVideoExternalSource \<Rightarrow> ArVideoExternalSource" where
  "unlock s = s\<lparr>myDataMutex := myDataMutex s - 1\<rparr>"

text \<open>The destructor; the object is gone afterwards, the memory remains.\<close>

definition destruct :: "ArVideoExternalSource \<Rightarrow> heap \<Rightarrow> heap option" where
  "destruct s h =
     (let s1 = lock s
      in case (if myDataAllocated s1 then delete_array h (myData s1) else Some h) of
           None \<Rightarrow> None
         | Some h1 \<Rightarrow> (let s2 = unlock s1 in Some h1))"

text \<open>
  \<open>setVideoDataPtr\<close> (the spec's \<open>setFramePointer\<close>), in source order: release an
  owned buffer and clear the ownership flag; then store the pointer, the width and the
  height. It takes no lock.
\<close>

definition setVideoDataPtr ::
  "ArVideoExternalSource \<Rightarrow> heap \<Rightarrow> pointer \<Rightarrow> cint \<Rightarrow> cint \<Rightarrow> bool outcome" where
  "setVideoDataPtr s h ptr width height =
     (case (if myDataAllocated s
            then (case delete_array h (myData s) of
                    None \<Rightarrow> None
                  | Some h1 \<Rightarrow> Some (s\<lparr>myDataAllocated := False\<rparr>, h1))
            else Some (s, h)) of
        None \<Rightarrow> Undefined
      | Some (s1, h1) \<Rightarrow>
          Returns True (s1\<lparr>myData := ptr, myWidth := width, myHeight := height\<rparr>) h1)"

text \<open>\<open>updated\<close> is the spec's \<open>markUpdated\<close>.\<close>

definition updated :: "ArVideoExternalSource \<Rightarrow> ArVideoExternalSource" where
  "updated s = s\<lparr>myUpdated := True\<rparr>"

definition bytesPerPixel :: "ArVideoExternalSource \<Rightarrow> cint" where
  "bytesPerPixel s = 3"

text \<open>The expression \<open>width * height * bytesPerPixel()\<close>, multiplied from the left.\<close>

definition frame_bytes :: "ArVideoExternalSource \<Rightarrow> cint \<Rightarrow> cint \<Rightarrow> cint option" where
  "frame_bytes s width height =
     (case int_mul width height of
        None \<Rightarrow> None
      | Some wh \<Rightarrow> int_mul wh (bytesPerPixel s))"

text \<open>
  \<open>updateVideoDataCopy\<close> (the spec's \<open>updateFrameCopy\<close>), in source order: lock; when
  no buffer is owned, \<open>new[]\<close> and then the two assignments (an exception from
  \<open>new[]\<close> leaves both undone and the lock taken); \<open>memcpy\<close>; unlock;
  \<open>updated()\<close>; return true. \<open>myWidth\<close> and \<open>myHeight\<close> are not assigned.
\<close>

definition updateVideoDataCopy ::
  "ArVideoExternalSource \<Rightarrow> heap \<Rightarrow> pointer \<Rightarrow> cint \<Rightarrow> cint \<Rightarrow> bool outcome" where
  "updateVideoDataCopy s h data width height =
     (let s1 = lock s;
          allocated =
            (if \<not> myDataAllocated s1
             then (case frame_bytes s1 width height of
                     None \<Rightarrow> Undefined
                   | Some n \<Rightarrow>
                       (case new_array h (sint n) of
                          None \<Rightarrow> Throws BadAlloc s1 h
                        | Some (p, h1) \<Rightarrow>
                            Returns () (s1\<lparr>myData := p, myDataAllocated := True\<rparr>) h1))
             else Returns () s1 h)
      in case allocated of
           Undefined \<Rightarrow> Undefined
         | Throws e s2 h2 \<Rightarrow> Throws e s2 h2
         | Returns _ s2 h2 \<Rightarrow>
             (case frame_bytes s2 width height of
                None \<Rightarrow> Undefined
              | Some n \<Rightarrow>
                  (case memcpy h2 (myData s2) data (sint n) of
                     None \<Rightarrow> Undefined
                   | Some h3 \<Rightarrow> Returns True (updated (unlock s2)) h3)))"

text \<open>
  \<open>updateVideo\<close> is the spec's \<open>pollForUpdate\<close>, \<open>updateVideoNow\<close> its
  \<open>isFrameReady\<close>.
\<close>

definition updateVideo :: "ArVideoExternalSource \<Rightarrow> bool" where
  "updateVideo s = True"

definition updateVideoNow :: "ArVideoExternalSource \<Rightarrow> bool" where
  "updateVideoNow s = myUpdated s"

definition "open" :: "ArVideoExternalSource \<Rightarrow> ArVideoExternalSource" where
  "open s = s\<lparr>myOpen := True\<rparr>"

definition close :: "ArVideoExternalSource \<Rightarrow> ArVideoExternalSource" where
  "close s = s\<lparr>myOpen := False\<rparr>"

definition isOpen :: "ArVideoExternalSource \<Rightarrow> bool" where
  "isOpen s = myOpen s"

definition getWidth :: "ArVideoExternalSource \<Rightarrow> cint" where
  "getWidth s = myWidth s"

definition getHeight :: "ArVideoExternalSource \<Rightarrow> cint" where
  "getHeight s = myHeight s"

definition getData :: "ArVideoExternalSource \<Rightarrow> pointer" where
  "getData s = myData s"

definition getConfigSectionName :: "ArVideoExternalSource \<Rightarrow> string" where
  "getConfigSectionName s = myName s"

definition getVideoSize :: "ArVideoExternalSource \<Rightarrow> string" where
  "getVideoSize s = ''default''"


text \<open>The remaining methods read the object or return constants.\<close>

definition getCaptureTimeSubtrahendMsecs :: "ArVideoExternalSource \<Rightarrow> cint" where
  "getCaptureTimeSubtrahendMsecs s = 0"

definition getCaptureTime :: "ArVideoExternalSource \<Rightarrow> bool" where
  "getCaptureTime s = False"

definition getCameraParameterNames :: "ArVideoExternalSource \<Rightarrow> string list" where
  "getCameraParameterNames s = []"

definition getCameraParameterValue :: "ArVideoExternalSource \<Rightarrow> string \<Rightarrow> cint" where
  "getCameraParameterValue s param = 0"


section \<open>Sequences of calls\<close>

text \<open>
  The public methods of the class, with the arguments that matter to the state, and what
  calling one does to the object and the memory (the returned value is dropped). The
  methods from \<open>videoFormat\<close> on, apart from \<open>open\<close> and \<open>close\<close>, have no assignment
  in their bodies.
\<close>

datatype call =
    SetVideoDataPtr pointer cint cint
  | Updated
  | Lock
  | Unlock
  | UpdateVideoDataCopy pointer cint cint
  | VideoFormat
  | BytesPerPixel
  | UpdateVideo
  | UpdateVideoNow
  | AddDataCallback
  | RemDataCallback
  | Open
  | Close
  | IsOpen
  | GetWidth
  | GetHeight
  | GetData
  | GetConfigSectionName
  | GetVideoSize
  | GetCaptureTimeSubtrahendMsecs
  | GetCaptureTime
  | GetCameraParameterNames
  | GetCameraParameterValue string
  | GetMaxConfigParamPriority

definition forget :: "'a outcome \<Rightarrow> unit outcome" where
  "forget r =
     (case r of
        Returns _ s h \<Rightarrow> Returns () s h
      | Throws e s h \<Rightarrow> Throws e s h
      | Undefined \<Rightarrow> Undefined)"

fun invoke :: "call \<Rightarrow> ArVideoExternalSource \<Rightarrow> heap \<Rightarrow> unit outcome" where
  "invoke (SetVideoDataPtr ptr width height) s h = forget (setVideoDataPtr s h ptr width height)"
| "invoke Updated s h = Returns () (updated s) h"
| "invoke Lock s h = Returns () (lock s) h"
| "invoke Unlock s h = Returns () (unlock s) h"
| "invoke (UpdateVideoDataCopy data width height) s h =
     forget (updateVideoDataCopy s h data width height)"
| "invoke VideoFormat s h = Returns () s h"
| "invoke BytesPerPixel s h = Returns () s h"
| "invoke UpdateVideo s h = Returns () s h"
| "invoke UpdateVideoNow s h = Returns () s h"
| "invoke AddDataCallback s h = Returns () s h"
| "invoke RemDataCallback s h = Returns () s h"
| "invoke Open s h = Returns () (open s) h"
| "invoke Close s h = Returns () (close s) h"
| "invoke IsOpen s h = Returns () s h"
| "invoke GetWidth s h = Returns () s h"
| "invoke GetHeight s h = Returns () s h"
| "invoke GetData s h = Returns () s h"
| "invoke GetConfigSectionName s h = Returns () s h"
| "invoke GetVideoSize s h = Returns () s h"
| "invoke GetCaptureTimeSubtrahendMsecs s h = Returns () s h"
| "invoke GetCaptureTime s h = Returns () s h"
| "invoke GetCameraParameterNames s h = Returns () s h"
| "invoke (GetCameraParameterValue param) s h = Returns () s h"
| "invoke GetMaxConfigParamPriority s h = Returns () s h"

text \<open>
  The object and the memory after a call, when there is an afterwards: a caller that
  catches the exception goes on with the state left at the throw.
\<close>

definition after :: "'a outcome \<Rightarrow> (ArVideoExternalSource \<times> heap) option" where
  "after r =
     (case r of
        Returns _ s h \<Rightarrow> Some (s, h)
      | Throws _ s h \<Rightarrow> Some (s, h)
      | Undefined \<Rightarrow> None)"

fun run :: "call list \<Rightarrow> ArVideoExternalSource \<Rightarrow> heap \<Rightarrow> (ArVideoExternalSource \<times> heap) option" where
  "run [] s h = Some (s, h)"
| "run (c # cs) s h =
     (case after (invoke c s h) of
        None \<Rightarrow> None
      | Some (s', h') \<Rightarrow> run cs s' h')"

text \<open>
  The ownership invariant: when the object owns its buffer, \<open>myData\<close> can be released
  with \<open>delete[]\<close>.
\<close>

definition owned_ok :: "ArVideoExternalSource \<Rightarrow> heap \<Rightarrow> bool" where
  "owned_ok s h = (if myDataAllocated s then delete_array h (myData s) \<noteq> None else True)"


text \<open>
  The caller's memory in the scenarios below: one block of 24 bytes, all \<open>0x7F\<close> (a frame
  of 4 by 2 pixels), and room for \<open>cap\<close> bytes in all.
\<close>

definition caller_heap :: "nat \<Rightarrow> heap" where
  "caller_heap cap = \<lparr>cells = [Some (replicate 24 127)], capacity = cap\<rparr>"


section \<open>Facts about the memory\<close>

text \<open>A write replaces a slice of one block: the block keeps its length, the slice reads back
  as written, and every byte outside it keeps its value.\<close>

lemma length_splice: "off + length xs \<le> length bs \<Longrightarrow> length (take off bs @ xs @ drop (off + length xs) bs) = length bs"
  by simp

lemma nth_splice:
  assumes "off + length xs \<le> length bs" "i < length bs"
  shows "(take off bs @ xs @ drop (off + length xs) bs) ! i =
         (if off \<le> i \<and> i < off + length xs then xs ! (i - off) else bs ! i)"
  using assms by (auto simp: nth_append min_def)

lemma read_splice_disjoint:
  assumes b: "off + length xs \<le> length bs"
    and d: "o1 + n \<le> off \<or> off + length xs \<le> o1"
  shows "take n (drop o1 (take off bs @ xs @ drop (off + length xs) bs)) = take n (drop o1 bs)"
proof -
  define L where "L = take off bs @ xs @ drop (off + length xs) bs"
  have len: "length L = length bs"
    unfolding L_def using b by (rule length_splice)
  have nth: "L ! (o1 + i) = bs ! (o1 + i)" if "i < n" "o1 + i < length bs" for i
    unfolding L_def using nth_splice [OF b that(2)] d that(1) by auto
  have "take n (drop o1 L) = take n (drop o1 bs)"
  proof (rule nth_equalityI)
    show "length (take n (drop o1 L)) = length (take n (drop o1 bs))"
      by (simp add: len)
  next
    fix i assume "i < length (take n (drop o1 L))"
    then have i: "i < n" "o1 + i < length bs" by (auto simp: len)
    then show "take n (drop o1 L) ! i = take n (drop o1 bs) ! i"
      using nth [OF i] by (simp add: len)
  qed
  then show ?thesis by (simp add: L_def)
qed

lemma read_write_same:
  "write_bytes h p xs = Some h' \<Longrightarrow> read_bytes h' p (length xs) = Some xs"
  by (auto simp: write_bytes_def read_bytes_def block_def split: pointer.splits option.splits if_splits)


lemma read_write_other:
  assumes w: "write_bytes h p ys = Some h'" and d: "disjoint q n p (length ys)"
  shows "read_bytes h' q n = read_bytes h q n"
proof (cases q)
  case Null then show ?thesis by (simp add: read_bytes_def)
next
  case (Ptr b1 o1)
  from w obtain b2 o2 bs where p: "p = Ptr b2 o2" and bl: "block h b2 = Some bs"
    and bd: "o2 + length ys \<le> length bs"
    and h': "h' = h\<lparr>cells := (cells h)[b2 := Some (take o2 bs @ ys @ drop (o2 + length ys) bs)]\<rparr>"
    by (auto simp: write_bytes_def split: pointer.splits option.splits if_splits)
  from bl have lt: "b2 < length (cells h)" by (auto simp: block_def split: if_splits)
  show ?thesis
  proof (cases "b1 = b2")
    case False
    then have "block h' b1 = block h b1" using h' by (simp add: block_def)
    then show ?thesis using Ptr by (simp add: read_bytes_def)
  next
    case True
    then have dd: "o1 + n \<le> o2 \<or> o2 + length ys \<le> o1" using d Ptr p by (simp add: disjoint_def)
    have "block h' b1 = Some (take o2 bs @ ys @ drop (o2 + length ys) bs)"
      using True h' lt by (simp add: block_def)
    then show ?thesis using Ptr True bl bd read_splice_disjoint [OF bd dd]
      by (simp add: read_bytes_def)
  qed
qed

text \<open>When a read and a write succeed, and what they leave of the blocks.\<close>

lemma read_bytes_Some:
  "read_bytes h p n = Some xs \<longleftrightarrow>
   (\<exists>b off bs. p = Ptr b off \<and> block h b = Some bs \<and> off + n \<le> length bs
      \<and> xs = take n (drop off bs))"
  by (auto simp: read_bytes_def split: pointer.splits option.splits)

lemma read_bytes_length: "read_bytes h p n = Some xs \<Longrightarrow> length xs = n"
  by (auto simp: read_bytes_Some)

lemma write_bytes_block_length:
  assumes "write_bytes h p xs = Some h'" and "block h b = Some bs"
  shows "\<exists>bs'. block h' b = Some bs' \<and> length bs' = length bs"
  using assms
  by (auto simp: write_bytes_def block_def nth_list_update
      split: pointer.splits option.splits if_splits)

lemma write_bytes_inside:
  assumes "block h b = Some bs" and "off + length ys \<le> length bs"
  shows "\<exists>h'. write_bytes h (Ptr b off) ys = Some h'"
  using assms by (simp add: write_bytes_def)


text \<open>\<open>new[]\<close> adds one block at the end, not live before, and touches no other.\<close>

lemma new_array_block:
  "new_array h n = Some (p, h1) \<Longrightarrow> block h b = Some bs \<Longrightarrow> block h1 b = Some bs"
  by (auto simp: new_array_def block_def nth_append split: if_splits)

lemma new_array_read:
  "new_array h n = Some (p, h1) \<Longrightarrow> read_bytes h q m = Some xs \<Longrightarrow> read_bytes h1 q m = Some xs"
  by (auto simp: read_bytes_Some dest: new_array_block)


lemma new_array_deletable:
  "new_array h n = Some (p, h1) \<Longrightarrow> delete_array h1 p \<noteq> None"
  by (auto simp: new_array_def delete_array_def block_def split: if_splits)

text \<open>\<open>memcpy\<close>: when it succeeds, and what it keeps.\<close>

lemma not_overlap_disjoint:
  assumes "\<not> overlap p q n" and "k + m \<le> n"
  shows "disjoint p n (ptr_add q k) m"
  using assms
  by (auto simp: overlap_def disjoint_def ptr_add_def split: pointer.splits)

lemma memcpy_Some:
  "memcpy h dst src n = Some h' \<longleftrightarrow>
   0 \<le> n \<and> \<not> overlap dst src (nat n)
   \<and> (\<exists>xs. read_bytes h src (nat n) = Some xs \<and> write_bytes h dst xs = Some h')"
  by (auto simp: memcpy_def split: option.splits)


lemma write_bytes_keeps_deletable:
  assumes w: "write_bytes h q xs = Some h'" and d: "delete_array h p \<noteq> None"
  shows "delete_array h' p \<noteq> None"
proof (cases p)
  case Null
  then show ?thesis by (simp add: delete_array_def)
next
  case (Ptr b off)
  with d obtain bs where "off = 0" and bl: "block h b = Some bs"
    by (auto simp: delete_array_def split: if_splits)
  moreover from write_bytes_block_length [OF w bl] have "block h' b \<noteq> None" by auto
  ultimately show ?thesis using Ptr by (simp add: delete_array_def)
qed

lemma memcpy_keeps_deletable:
  "memcpy h dst src n = Some h' \<Longrightarrow> delete_array h p \<noteq> None \<Longrightarrow> delete_array h' p \<noteq> None"
  by (auto simp: memcpy_Some dest: write_bytes_keeps_deletable)

lemma delete_array_not_live:
  "delete_array h p = Some h' \<Longrightarrow> \<not> live h' p"
  by (auto simp: delete_array_def live_def block_def split: pointer.splits if_splits)




text \<open>
  The heart of copy isolation: after a copy of \<open>n\<close> bytes, the destination holds the bytes
  the source held, and a later write inside those \<open>n\<close> bytes of the source is possible and
  does not reach the destination.
\<close>

lemma copy_then_mutate:
  assumes m: "memcpy h dst src n = Some h'"
    and r: "read_bytes h src (nat n) = Some xs"
    and k: "k + length ys \<le> nat n"
  shows "read_bytes h' dst (nat n) = Some xs
         \<and> (\<exists>h''. write_bytes h' (ptr_add src k) ys = Some h''
                \<and> read_bytes h'' dst (nat n) = Some xs)"
proof -
  from m r have no: "\<not> overlap dst src (nat n)" and w: "write_bytes h dst xs = Some h'"
    by (auto simp: memcpy_Some)
  have len: "length xs = nat n" using r by (rule read_bytes_length)
  have copy: "read_bytes h' dst (nat n) = Some xs"
    using read_write_same [OF w] len by simp
  from r obtain b off bs where src: "src = Ptr b off" and bl: "block h b = Some bs"
    and bd: "off + nat n \<le> length bs"
    by (auto simp: read_bytes_Some)
  from write_bytes_block_length [OF w bl] obtain bs' where
    bl': "block h' b = Some bs'" and len': "length bs' = length bs" by blast
  have "off + k + length ys \<le> length bs'" using k bd len' by simp
  from write_bytes_inside [OF bl' this] obtain h'' where
    w2: "write_bytes h' (ptr_add src k) ys = Some h''"
    by (auto simp: src ptr_add_def)
  have "disjoint dst (nat n) (ptr_add src k) (length ys)"
    using no k by (rule not_overlap_disjoint)
  from read_write_other [OF w2 this] copy have "read_bytes h'' dst (nat n) = Some xs"
    by simp
  with copy w2 show ?thesis by blast
qed



section \<open>What a copy update does\<close>

text \<open>The size expression does not depend on the object; a call that returns has copied
  into the buffer it owned or into a new one; a call throws exactly when it asks for memory
  and gets none.\<close>

lemma frame_bytes_any: "frame_bytes s w ht = frame_bytes s' w ht"
  by (simp add: frame_bytes_def bytesPerPixel_def split: option.splits)

lemma updateVideoDataCopy_Returns:
  assumes "updateVideoDataCopy s h data width height = Returns r s' h'"
  shows "\<exists>n p h1. frame_bytes s width height = Some n
           \<and> (if myDataAllocated s then p = myData s \<and> h1 = h
               else new_array h (sint n) = Some (p, h1))
           \<and> memcpy h1 p data (sint n) = Some h'
           \<and> r = True
           \<and> s' = s\<lparr>myUpdated := True, myDataAllocated := True, myData := p\<rparr>"
  using assms
  by (auto simp: updateVideoDataCopy_def Let_def lock_def unlock_def updated_def
      frame_bytes_any [of "_\<lparr>myDataMutex := _\<rparr>" _ _ s]
      frame_bytes_any [of "_\<lparr>myData := _\<rparr>" _ _ s]
      frame_bytes_any [of "_\<lparr>myDataAllocated := _\<rparr>" _ _ s]
      split: if_splits option.splits outcome.splits prod.splits)

lemma updateVideoDataCopy_Throws:
  "updateVideoDataCopy s h data width height = Throws e s' h' \<longleftrightarrow>
   \<not> myDataAllocated s
   \<and> (\<exists>n. frame_bytes s width height = Some n \<and> new_array h (sint n) = None)
   \<and> e = BadAlloc \<and> s' = lock s \<and> h' = h"
  by (auto simp: updateVideoDataCopy_def Let_def lock_def unlock_def updated_def
      frame_bytes_any [of "_\<lparr>myDataMutex := _\<rparr>" _ _ s]
      frame_bytes_any [of "_\<lparr>myData := _\<rparr>" _ _ s]
      frame_bytes_any [of "_\<lparr>myDataAllocated := _\<rparr>" _ _ s]
      split: if_splits option.splits outcome.splits prod.splits)








section \<open>What the other calls do\<close>

text \<open>
  \<open>setVideoDataPtr\<close> returns or is undefined, and never throws. Every call that has an
  afterwards is one of: a \<open>setVideoDataPtr\<close> that returned, a copy update that returned, a
  copy update that threw, or a method that leaves the memory alone and changes at most one
  flag or the lock count.
\<close>

lemma setVideoDataPtr_Returns:
  "setVideoDataPtr s h ptr width height = Returns r s' h' \<longleftrightarrow>
     r \<and> s' = s\<lparr>myDataAllocated := False, myData := ptr, myWidth := width, myHeight := height\<rparr>
     \<and> (if myDataAllocated s then delete_array h (myData s) = Some h' else h' = h)"
  by (auto simp: setVideoDataPtr_def split: option.splits)

lemma setVideoDataPtr_not_Throws:
  "setVideoDataPtr s h ptr width height \<noteq> Throws e s' h'"
  by (auto simp: setVideoDataPtr_def split: option.splits)

lemma after_invoke_cases:
  assumes "after (invoke c s h) = Some (s', h')"
  shows "(\<exists>p w ht r. c = SetVideoDataPtr p w ht \<and> setVideoDataPtr s h p w ht = Returns r s' h')
       \<or> (\<exists>d w ht r. c = UpdateVideoDataCopy d w ht \<and> updateVideoDataCopy s h d w ht = Returns r s' h')
       \<or> (\<exists>d w ht e. c = UpdateVideoDataCopy d w ht \<and> updateVideoDataCopy s h d w ht = Throws e s' h')
       \<or> (h' = h \<and> (s' = s \<or> s' = updated s \<or> s' = lock s \<or> s' = unlock s \<or> s' = open s \<or> s' = close s)
            \<and> (\<forall>p w ht. c \<noteq> SetVideoDataPtr p w ht) \<and> (\<forall>p w ht. c \<noteq> UpdateVideoDataCopy p w ht))"
  using assms
  by (cases c) (auto simp: after_def forget_def setVideoDataPtr_not_Throws split: outcome.splits)

text \<open>What sequences of calls keep: the reported dimensions (apart from
  \<open>setVideoDataPtr\<close>) and a pending-update flag that is set.\<close>

lemma after_invoke_dims:
  assumes "after (invoke c s h) = Some (s', h')" and "\<forall>p w ht. c \<noteq> SetVideoDataPtr p w ht"
  shows "myWidth s' = myWidth s \<and> myHeight s' = myHeight s"
  using after_invoke_cases [OF assms(1)] assms(2)
  by (auto simp: updated_def lock_def unlock_def open_def close_def updateVideoDataCopy_Throws
      dest!: updateVideoDataCopy_Returns)

lemma after_invoke_updated:
  assumes "after (invoke c s h) = Some (s', h')" and "myUpdated s"
  shows "myUpdated s'"
  using after_invoke_cases [OF assms(1)] assms(2)
  by (auto simp: updated_def lock_def unlock_def open_def close_def updateVideoDataCopy_Throws
      setVideoDataPtr_Returns dest!: updateVideoDataCopy_Returns)

lemma run_updated:
  "myUpdated s \<Longrightarrow> run cs s h = Some (s', h') \<Longrightarrow> myUpdated s'"
proof (induction cs arbitrary: s h)
  case Nil
  then show ?case by simp
next
  case (Cons c cs)
  from Cons.prems(2) obtain s1 h1 where
    step: "after (invoke c s h) = Some (s1, h1)" and rest: "run cs s1 h1 = Some (s', h')"
    by (auto split: option.splits)
  from step Cons.prems(1) have "myUpdated s1" by (rule after_invoke_updated)
  then show ?case using rest by (rule Cons.IH)
qed

text \<open>
  The ownership invariant holds after construction and after every sequence of calls that
  runs to its end.
\<close>

lemma construct_owned_ok: "owned_ok (construct name) h"
  by (simp add: owned_ok_def construct_def)

lemma updateVideoDataCopy_owned_ok:
  assumes ret: "updateVideoDataCopy s h data width height = Returns r s' h'"
    and ok: "owned_ok s h"
  shows "owned_ok s' h'"
proof -
  from updateVideoDataCopy_Returns [OF ret] obtain n p h1 where
    n: "frame_bytes s width height = Some n"
    and a: "if myDataAllocated s then p = myData s \<and> h1 = h
        else new_array h (sint n) = Some (p, h1)"
    and m: "memcpy h1 p data (sint n) = Some h'"
    and s': "s' = s\<lparr>myUpdated := True, myDataAllocated := True, myData := p\<rparr>"
    by blast
  have "delete_array h1 p \<noteq> None"
    using a ok by (auto simp: owned_ok_def split: if_splits dest: new_array_deletable)
  with m have "delete_array h' p \<noteq> None" by (rule memcpy_keeps_deletable)
  then show ?thesis by (simp add: owned_ok_def s')
qed

lemma invoke_owned_ok:
  assumes "after (invoke c s h) = Some (s', h')" and "owned_ok s h"
  shows "owned_ok s' h'"
  using after_invoke_cases [OF assms(1)] assms(2)
  by (auto simp: setVideoDataPtr_Returns updateVideoDataCopy_Throws
      updated_def lock_def unlock_def open_def close_def owned_ok_def
      dest: updateVideoDataCopy_owned_ok [unfolded owned_ok_def])

lemma run_owned_ok:
  "owned_ok s h \<Longrightarrow> run cs s h = Some (s', h') \<Longrightarrow> owned_ok s' h'"
proof (induction cs arbitrary: s h)
  case Nil
  then show ?case by simp
next
  case (Cons c cs)
  from Cons.prems(2) obtain s1 h1 where
    step: "after (invoke c s h) = Some (s1, h1)" and rest: "run cs s1 h1 = Some (s', h')"
    by (auto split: option.splits)
  from step Cons.prems(1) have "owned_ok s1 h1" by (rule invoke_owned_ok)
  then show ?case using rest by (rule Cons.IH)
qed


section \<open>Construction, open and close\<close>

text \<open>
  C8: for every name, a freshly constructed source is closed and has no buffer:
  \<open>isOpen()\<close> is false, \<open>getWidth()\<close> and \<open>getHeight()\<close> are 0, \<open>getData()\<close> is the
  null pointer, no buffer is owned, and the pending-update flag is false.
\<close>

theorem construct_starts_closed_and_empty:
  "isOpen (construct name) = False
   \<and> getWidth (construct name) = 0
   \<and> getHeight (construct name) = 0
   \<and> getData (construct name) = Null
   \<and> myDataAllocated (construct name) = False
   \<and> updateVideoNow (construct name) = False"
  by (simp add: construct_def isOpen_def getWidth_def getHeight_def getData_def
      updateVideoNow_def)

text \<open>
  C7: \<open>open()\<close> and \<open>close()\<close> change the \<open>myOpen\<close> flag and nothing else (the
  data pointer, the width, the height, the ownership flag and the pending-update flag keep
  their values), and calling either twice gives the state that calling it once gives.
\<close>

theorem open_close_only_touch_myOpen:
  "open s = s\<lparr>myOpen := True\<rparr>
   \<and> close s = s\<lparr>myOpen := False\<rparr>
   \<and> isOpen (open s) = True \<and> isOpen (close s) = False
   \<and> myData (open s) = myData s \<and> myData (close s) = myData s
   \<and> myWidth (open s) = myWidth s \<and> myWidth (close s) = myWidth s
   \<and> myHeight (open s) = myHeight s \<and> myHeight (close s) = myHeight s
   \<and> myDataAllocated (open s) = myDataAllocated s
   \<and> myDataAllocated (close s) = myDataAllocated s
   \<and> myUpdated (open s) = myUpdated s \<and> myUpdated (close s) = myUpdated s
   \<and> open (open s) = open s
   \<and> close (close s) = close s"
  by (simp add: open_def close_def isOpen_def)



section \<open>The scenario: open, then one copy update of a 4 by 2 frame\<close>

text \<open>A copy update of the caller's frame by an object that owns no buffer, evaluated.\<close>

lemma scenario_copy_returns:
  assumes "\<not> myDataAllocated s"
  shows "updateVideoDataCopy s (caller_heap 48) (Ptr 0 0) 4 2
         = Returns True (s\<lparr>myUpdated := True, myDataAllocated := True, myData := Ptr 1 0\<rparr>)
             \<lparr>cells = [Some (replicate 24 127), Some (replicate 24 127)], capacity = 48\<rparr>"
  using assms
  by (simp add: updateVideoDataCopy_def caller_heap_def lock_def unlock_def updated_def
      frame_bytes_def bytesPerPixel_def int_mul_def new_array_def used_def
      memcpy_def overlap_def read_bytes_def write_bytes_def block_def)

text \<open>
  C1: a fresh source, \<open>open()\<close>, then \<open>updateVideoDataCopy\<close> with 24 bytes of
  \<open>0x7F\<close>, width 4 and height 2. The call returns true, \<open>updateVideoNow()\<close> is true and
  the buffer holds 24 bytes \<open>0x7F\<close>, as the claim says; but \<open>getWidth()\<close> and
  \<open>getHeight()\<close> still return 0, not 4 and 2: the copy update never assigns \<open>myWidth\<close>
  and \<open>myHeight\<close>.
\<close>

theorem copy_scenario_leaves_dimensions_zero:
  "(case updateVideoDataCopy (open (construct name)) (caller_heap 48) (Ptr 0 0) 4 2 of
      Returns r s h \<Rightarrow>
        r \<and> updateVideoNow s
        \<and> read_bytes h (getData s) 24 = Some (replicate 24 127)
        \<and> getWidth s = 0 \<and> getHeight s = 0
        \<and> getWidth s \<noteq> 4 \<and> getHeight s \<noteq> 2
    | Throws e s h \<Rightarrow> False
    | Undefined \<Rightarrow> False)"
proof -
  have "\<not> myDataAllocated (open (construct name))"
    by (simp add: open_def construct_def)
  then show ?thesis
    by (simp add: scenario_copy_returns updateVideoNow_def getData_def getWidth_def getHeight_def
        read_bytes_def block_def open_def construct_def)
qed


section \<open>The pending-update flag\<close>

text \<open>
  C2, as stated, fails: after a successful \<open>setVideoDataPtr\<close> on a fresh source
  \<open>updateVideoNow()\<close> is still false.
\<close>

theorem setVideoDataPtr_does_not_mark_updated:
  "setVideoDataPtr (construct ''cam0'') (caller_heap 48) (Ptr 0 0) 2 2
   = Returns True ((construct ''cam0'')\<lparr>myData := Ptr 0 0, myWidth := 2, myHeight := 2\<rparr>)
       (caller_heap 48)
   \<and> \<not> updateVideoNow ((construct ''cam0'')\<lparr>myData := Ptr 0 0, myWidth := 2, myHeight := 2\<rparr>)"
  by (simp add: setVideoDataPtr_def construct_def updateVideoNow_def)

text \<open>
  C2, amended: \<open>updateVideoNow()\<close> is false on a fresh source, true after every
  \<open>updateVideoDataCopy\<close> that returns and after every \<open>updated()\<close>, and keeps its value
  across \<open>open()\<close>, \<open>close()\<close> and \<open>setVideoDataPtr\<close>.
\<close>

theorem pending_flag_set_by_copy_and_updated_only:
  "updateVideoNow (construct name) = False
   \<and> (updateVideoDataCopy s h data width height = Returns r s' h' \<longrightarrow> updateVideoNow s' = True)
   \<and> updateVideoNow (updated s) = True
   \<and> updateVideoNow (open s) = updateVideoNow s
   \<and> updateVideoNow (close s) = updateVideoNow s
   \<and> (setVideoDataPtr s h data width height = Returns r2 s2 h2 \<longrightarrow>
        updateVideoNow s2 = updateVideoNow s)"
  by (auto simp: updateVideoNow_def construct_def updated_def open_def close_def
      setVideoDataPtr_Returns dest!: updateVideoDataCopy_Returns)

theorem pending_flag_set_by_copy_and_updated_only_witness:
  "updateVideoDataCopy (construct ''cam0'') (caller_heap 48) (Ptr 0 0) 4 2
   = Returns True
       ((construct ''cam0'')\<lparr>myUpdated := True, myDataAllocated := True, myData := Ptr 1 0\<rparr>)
       \<lparr>cells = [Some (replicate 24 127), Some (replicate 24 127)], capacity = 48\<rparr>
   \<and> updateVideoNow
        ((construct ''cam0'')\<lparr>myUpdated := True, myDataAllocated := True, myData := Ptr 1 0\<rparr>)
   \<and> setVideoDataPtr (construct ''cam0'') (caller_heap 48) (Ptr 0 0) 4 2
     = Returns True ((construct ''cam0'')\<lparr>myData := Ptr 0 0, myWidth := 4, myHeight := 2\<rparr>)
         (caller_heap 48)
   \<and> updateVideoNow ((construct ''cam0'')\<lparr>myData := Ptr 0 0, myWidth := 4, myHeight := 2\<rparr>)
     = updateVideoNow (construct ''cam0'')"
proof -
  have c: "updateVideoDataCopy (construct ''cam0'') (caller_heap 48) (Ptr 0 0) 4 2
     = Returns True
         ((construct ''cam0'')\<lparr>myUpdated := True, myDataAllocated := True, myData := Ptr 1 0\<rparr>)
         \<lparr>cells = [Some (replicate 24 127), Some (replicate 24 127)], capacity = 48\<rparr>"
    by (rule scenario_copy_returns) (simp add: construct_def)
  have p: "setVideoDataPtr (construct ''cam0'') (caller_heap 48) (Ptr 0 0) 4 2
     = Returns True ((construct ''cam0'')\<lparr>myData := Ptr 0 0, myWidth := 4, myHeight := 2\<rparr>)
         (caller_heap 48)"
    by (simp add: setVideoDataPtr_def construct_def)
  from pending_flag_set_by_copy_and_updated_only
    [of "''cam0''" "construct ''cam0''" "caller_heap 48" "Ptr 0 0" 4 2 True
      "(construct ''cam0'')\<lparr>myUpdated := True, myDataAllocated := True, myData := Ptr 1 0\<rparr>"
      "\<lparr>cells = [Some (replicate 24 127), Some (replicate 24 127)], capacity = 48\<rparr>"
      True "(construct ''cam0'')\<lparr>myData := Ptr 0 0, myWidth := 4, myHeight := 2\<rparr>"
      "caller_heap 48"]
    c p
  show ?thesis by simp
qed

text \<open>
  C10: the pending-update flag is never cleared. Once \<open>updateVideoNow()\<close> is true, it is
  true after every sequence of calls of public methods that runs to its end.
\<close>

theorem pending_flag_never_cleared:
  "updateVideoNow s \<Longrightarrow> run cs s h = Some (s', h') \<Longrightarrow> updateVideoNow s'"
  unfolding updateVideoNow_def by (rule run_updated)

theorem pending_flag_never_cleared_witness:
  "updateVideoNow (updated (construct ''cam0''))
   \<and> run [Close, UpdateVideoDataCopy (Ptr 0 0) 4 2, UpdateVideoNow, SetVideoDataPtr (Ptr 0 0) 4 2,
          Lock, GetData, Unlock, Open, Close]
        (updated (construct ''cam0'')) (caller_heap 48)
     = Some ((construct ''cam0'')\<lparr>myUpdated := True, myData := Ptr 0 0, myWidth := 4, myHeight := 2\<rparr>,
             \<lparr>cells = [Some (replicate 24 127), None], capacity = 48\<rparr>)
   \<and> updateVideoNow
        ((construct ''cam0'')\<lparr>myUpdated := True, myData := Ptr 0 0, myWidth := 4, myHeight := 2\<rparr>)"
proof -
  have u: "updateVideoNow (updated (construct ''cam0''))"
    by (simp add: updateVideoNow_def updated_def)
  have r: "run [Close, UpdateVideoDataCopy (Ptr 0 0) 4 2, UpdateVideoNow, SetVideoDataPtr (Ptr 0 0) 4 2,
          Lock, GetData, Unlock, Open, Close]
        (updated (construct ''cam0'')) (caller_heap 48)
     = Some ((construct ''cam0'')\<lparr>myUpdated := True, myData := Ptr 0 0, myWidth := 4, myHeight := 2\<rparr>,
             \<lparr>cells = [Some (replicate 24 127), None], capacity = 48\<rparr>)"
    by (simp add: after_def forget_def scenario_copy_returns setVideoDataPtr_def delete_array_def block_def
        close_def open_def lock_def unlock_def updated_def construct_def)
  from pending_flag_never_cleared [OF u r] u r show ?thesis by simp
qed


section \<open>Switching to a borrowed pointer\<close>

text \<open>
  C3: in every state whose owned buffer (if there is one) can be released,
  \<open>setVideoDataPtr(ptr, width, height)\<close> returns true; an owned buffer is released first and
  is no longer live; afterwards the buffer is not owned, the stored pointer is \<open>ptr\<close>, the
  stored width and height are the arguments, and the memory is otherwise untouched (nothing is
  copied); and the destructor, run in that state, releases nothing: it leaves the memory as it
  is, the borrowed pointer included.
\<close>

theorem setVideoDataPtr_switches_to_borrowed:
  assumes "owned_ok s h"
  shows "\<exists>h'. setVideoDataPtr s h ptr width height
            = Returns True
                (s\<lparr>myDataAllocated := False, myData := ptr, myWidth := width, myHeight := height\<rparr>) h'
          \<and> (if myDataAllocated s
              then delete_array h (myData s) = Some h' \<and> \<not> live h' (myData s)
              else h' = h)
          \<and> destruct
               (s\<lparr>myDataAllocated := False, myData := ptr, myWidth := width, myHeight := height\<rparr>) h'
             = Some h'"
proof (cases "myDataAllocated s")
  case True
  with assms obtain h' where d: "delete_array h (myData s) = Some h'"
    by (auto simp: owned_ok_def)
  then show ?thesis using True delete_array_not_live [OF d]
    by (simp add: setVideoDataPtr_def destruct_def lock_def unlock_def)
next
  case False
  then show ?thesis
    by (simp add: setVideoDataPtr_def destruct_def lock_def unlock_def)
qed

theorem setVideoDataPtr_switches_to_borrowed_witness:
  "owned_ok
     ((construct ''cam0'')\<lparr>myUpdated := True, myDataAllocated := True, myData := Ptr 1 0\<rparr>)
     \<lparr>cells = [Some (replicate 24 127), Some (replicate 24 127)], capacity = 48\<rparr>
   \<and> (\<exists>h'. setVideoDataPtr
            ((construct ''cam0'')\<lparr>myUpdated := True, myDataAllocated := True, myData := Ptr 1 0\<rparr>)
            \<lparr>cells = [Some (replicate 24 127), Some (replicate 24 127)], capacity = 48\<rparr>
            (Ptr 0 0) 4 2
          = Returns True
              ((construct ''cam0'')\<lparr>myUpdated := True, myData := Ptr 0 0, myWidth := 4, myHeight := 2\<rparr>)
              h'
        \<and> h' = \<lparr>cells = [Some (replicate 24 127), None], capacity = 48\<rparr>
        \<and> \<not> live h' (Ptr 1 0)
        \<and> live h' (Ptr 0 0)
        \<and> destruct
             ((construct ''cam0'')\<lparr>myUpdated := True, myData := Ptr 0 0, myWidth := 4, myHeight := 2\<rparr>)
             h'
           = Some h')"
proof -
  have ok: "owned_ok
     ((construct ''cam0'')\<lparr>myUpdated := True, myDataAllocated := True, myData := Ptr 1 0\<rparr>)
     \<lparr>cells = [Some (replicate 24 127), Some (replicate 24 127)], capacity = 48\<rparr>"
    by (simp add: owned_ok_def construct_def delete_array_def block_def)
  from setVideoDataPtr_switches_to_borrowed [OF ok, of "Ptr 0 0" 4 2] ok
  show ?thesis
    by (auto simp: construct_def delete_array_def block_def live_def)
qed


section \<open>Copy updates: allocation, copying, failure\<close>



text \<open>
  C5: copy isolation. When \<open>updateVideoDataCopy(src, width, height)\<close> returns and the
  first \<open>width * height * 3\<close> bytes at \<open>src\<close> were \<open>xs\<close>, the same number of bytes
  at \<open>getData()\<close> are \<open>xs\<close>; and they still are after the caller writes any bytes
  anywhere inside those bytes of \<open>src\<close> (such a write is always possible).
\<close>

theorem updateVideoDataCopy_copy_isolation:
  assumes ret: "updateVideoDataCopy s h src width height = Returns r s' h'"
    and n: "frame_bytes s width height = Some n"
    and xs: "read_bytes h src (nat (sint n)) = Some xs"
  shows "read_bytes h' (getData s') (nat (sint n)) = Some xs
         \<and> (\<forall>k ys. k + length ys \<le> nat (sint n) \<longrightarrow>
               (\<exists>h''. write_bytes h' (ptr_add src k) ys = Some h''
                   \<and> read_bytes h'' (getData s') (nat (sint n)) = Some xs))"
proof -
  from updateVideoDataCopy_Returns [OF ret] n obtain p h1 where
    a: "if myDataAllocated s then p = myData s \<and> h1 = h
        else new_array h (sint n) = Some (p, h1)"
    and m: "memcpy h1 p src (sint n) = Some h'"
    and s': "s' = s\<lparr>myUpdated := True, myDataAllocated := True, myData := p\<rparr>"
    by auto
  have p: "getData s' = p" using s' by (simp add: getData_def)
  have r1: "read_bytes h1 src (nat (sint n)) = Some xs"
    using a xs by (auto split: if_splits dest: new_array_read)
  have "read_bytes h' p (nat (sint n)) = Some xs"
    using copy_then_mutate [OF m r1, of 0 "[]"] by simp
  moreover have "\<exists>h''. write_bytes h' (ptr_add src k) ys = Some h''
                   \<and> read_bytes h'' p (nat (sint n)) = Some xs"
    if "k + length ys \<le> nat (sint n)" for k ys
    using copy_then_mutate [OF m r1 that] by simp
  ultimately show ?thesis
    unfolding p by simp
qed

text \<open>
  The witness: after the copy of the scenario the caller overwrites bytes 3 and 4 of its
  frame; the source's buffer still reads 24 bytes \<open>0x7F\<close>.
\<close>

theorem updateVideoDataCopy_copy_isolation_witness:
  "updateVideoDataCopy (construct ''cam0'') (caller_heap 48) (Ptr 0 0) 4 2
   = Returns True
       ((construct ''cam0'')\<lparr>myUpdated := True, myDataAllocated := True, myData := Ptr 1 0\<rparr>)
       \<lparr>cells = [Some (replicate 24 127), Some (replicate 24 127)], capacity = 48\<rparr>
   \<and> frame_bytes (construct ''cam0'') 4 2 = Some 24
   \<and> read_bytes (caller_heap 48) (Ptr 0 0) (nat (sint (24 :: cint))) = Some (replicate 24 127)
   \<and> (\<exists>h''. write_bytes
               \<lparr>cells = [Some (replicate 24 127), Some (replicate 24 127)], capacity = 48\<rparr>
               (ptr_add (Ptr 0 0) 3) [1, 2] = Some h''
          \<and> read_bytes h''
               (getData ((construct ''cam0'')
                  \<lparr>myUpdated := True, myDataAllocated := True, myData := Ptr 1 0\<rparr>))
               (nat (sint (24 :: cint)))
             = Some (replicate 24 127))"
proof -
  have c: "updateVideoDataCopy (construct ''cam0'') (caller_heap 48) (Ptr 0 0) 4 2
     = Returns True
         ((construct ''cam0'')\<lparr>myUpdated := True, myDataAllocated := True, myData := Ptr 1 0\<rparr>)
         \<lparr>cells = [Some (replicate 24 127), Some (replicate 24 127)], capacity = 48\<rparr>"
    by (rule scenario_copy_returns) (simp add: construct_def)
  have n: "frame_bytes (construct ''cam0'') 4 2 = Some 24"
    by (simp add: frame_bytes_def bytesPerPixel_def int_mul_def)
  have xs: "read_bytes (caller_heap 48) (Ptr 0 0) (nat (sint (24 :: cint))) = Some (replicate 24 127)"
    by (simp add: read_bytes_def caller_heap_def block_def)
  have k: "3 + length [1, 2 :: byte] \<le> nat (sint (24 :: cint))"
    by simp
  from updateVideoDataCopy_copy_isolation [OF c n xs] k
  have "\<exists>h''. write_bytes
               \<lparr>cells = [Some (replicate 24 127), Some (replicate 24 127)], capacity = 48\<rparr>
               (ptr_add (Ptr 0 0) 3) [1, 2] = Some h''
          \<and> read_bytes h''
               (getData ((construct ''cam0'')
                  \<lparr>myUpdated := True, myDataAllocated := True, myData := Ptr 1 0\<rparr>))
               (nat (sint (24 :: cint)))
             = Some (replicate 24 127)"
    by blast
  with c n xs show ?thesis by blast
qed

text \<open>
  C6: \<open>updateVideoDataCopy\<close> throws the allocation failure exactly when it asks for memory
  (the object owns no buffer) and \<open>new[]\<close> cannot provide it; and whenever it throws, the
  memory is unchanged (no byte was copied) and the data pointer, the ownership flag, the
  width, the height, the pending-update flag and the open flag are as before the call.
\<close>

theorem updateVideoDataCopy_allocation_failure_atomic:
  "((\<exists>s' h'. updateVideoDataCopy s h data width height = Throws BadAlloc s' h') \<longleftrightarrow>
      \<not> myDataAllocated s
      \<and> (\<exists>n. frame_bytes s width height = Some n \<and> new_array h (sint n) = None))
   \<and> (updateVideoDataCopy s h data width height = Throws e s1 h1 \<longrightarrow>
        h1 = h
        \<and> getData s1 = getData s \<and> myDataAllocated s1 = myDataAllocated s
        \<and> getWidth s1 = getWidth s \<and> getHeight s1 = getHeight s
        \<and> updateVideoNow s1 = updateVideoNow s
        \<and> isOpen s1 = isOpen s)"
  by (auto simp: updateVideoDataCopy_Throws lock_def getData_def getWidth_def getHeight_def
      updateVideoNow_def isOpen_def)

text \<open>
  The witness: the caller's frame takes 24 of the 30 bytes there are, so the 24 bytes the
  copy update asks for cannot be had.
\<close>

theorem updateVideoDataCopy_allocation_failure_atomic_witness:
  "\<not> myDataAllocated (construct ''cam0'')
   \<and> frame_bytes (construct ''cam0'') 4 2 = Some 24
   \<and> new_array (caller_heap 30) (sint (24 :: cint)) = None
   \<and> updateVideoDataCopy (construct ''cam0'') (caller_heap 30) (Ptr 0 0) 4 2
     = Throws BadAlloc (lock (construct ''cam0'')) (caller_heap 30)
   \<and> getData (lock (construct ''cam0'')) = getData (construct ''cam0'')
   \<and> updateVideoNow (lock (construct ''cam0'')) = updateVideoNow (construct ''cam0'')"
proof -
  have t: "updateVideoDataCopy (construct ''cam0'') (caller_heap 30) (Ptr 0 0) 4 2
     = Throws BadAlloc (lock (construct ''cam0'')) (caller_heap 30)"
    by (simp add: updateVideoDataCopy_def construct_def caller_heap_def lock_def
        frame_bytes_def bytesPerPixel_def int_mul_def new_array_def used_def)
  have n: "frame_bytes (construct ''cam0'') 4 2 = Some 24"
    by (simp add: frame_bytes_def bytesPerPixel_def int_mul_def)
  have a: "new_array (caller_heap 30) (sint (24 :: cint)) = None"
    by (simp add: new_array_def used_def caller_heap_def)
  from updateVideoDataCopy_allocation_failure_atomic
    [of "construct ''cam0''" "caller_heap 30" "Ptr 0 0" 4 2 BadAlloc
      "lock (construct ''cam0'')" "caller_heap 30"] t n a
  show ?thesis by (simp add: construct_def)
qed


section \<open>The reported dimensions\<close>

text \<open>
  C9: \<open>updateVideoDataCopy\<close> leaves \<open>getWidth()\<close> and \<open>getHeight()\<close> as they were,
  whatever it is passed and whether it returns or throws; and so does every public method
  other than \<open>setVideoDataPtr\<close>.
\<close>

theorem only_setVideoDataPtr_changes_dimensions:
  "(after (updateVideoDataCopy s h data width height) = Some (s', h') \<longrightarrow>
      getWidth s' = getWidth s \<and> getHeight s' = getHeight s)
   \<and> ((\<forall>p w ht. c \<noteq> SetVideoDataPtr p w ht) \<longrightarrow> after (invoke c s h) = Some (s'', h'') \<longrightarrow>
      getWidth s'' = getWidth s \<and> getHeight s'' = getHeight s)"
proof (intro conjI impI)
  assume a: "after (updateVideoDataCopy s h data width height) = Some (s', h')"
  then have "after (invoke (UpdateVideoDataCopy data width height) s h) = Some (s', h')"
    by (simp add: after_def forget_def split: outcome.splits)
  then have "myWidth s' = myWidth s \<and> myHeight s' = myHeight s"
    by (rule after_invoke_dims) simp
  then show "getWidth s' = getWidth s" "getHeight s' = getHeight s"
    by (simp_all add: getWidth_def getHeight_def)
next
  assume "\<forall>p w ht. c \<noteq> SetVideoDataPtr p w ht" "after (invoke c s h) = Some (s'', h'')"
  then have "myWidth s'' = myWidth s \<and> myHeight s'' = myHeight s"
    using after_invoke_dims by blast
  then show "getWidth s'' = getWidth s" "getHeight s'' = getHeight s"
    by (simp_all add: getWidth_def getHeight_def)
qed

text \<open>
  The witness: a source that reports 4 by 2 (set by \<open>setVideoDataPtr\<close>) is given a copy
  update of an 8 by 1 frame and then closed; it reports 4 by 2 throughout.
\<close>

theorem only_setVideoDataPtr_changes_dimensions_witness:
  "after (updateVideoDataCopy
       ((construct ''cam0'')\<lparr>myData := Ptr 0 0, myWidth := 4, myHeight := 2\<rparr>)
       (caller_heap 48) (Ptr 0 0) 8 1)
   = Some ((construct ''cam0'')
             \<lparr>myUpdated := True, myWidth := 4, myHeight := 2, myDataAllocated := True,
              myData := Ptr 1 0\<rparr>,
           \<lparr>cells = [Some (replicate 24 127), Some (replicate 24 127)], capacity = 48\<rparr>)
   \<and> getWidth ((construct ''cam0'')
             \<lparr>myUpdated := True, myWidth := 4, myHeight := 2, myDataAllocated := True,
              myData := Ptr 1 0\<rparr>) = 4
   \<and> getHeight ((construct ''cam0'')
             \<lparr>myUpdated := True, myWidth := 4, myHeight := 2, myDataAllocated := True,
              myData := Ptr 1 0\<rparr>) = 2
   \<and> after (invoke Close ((construct ''cam0'')\<lparr>myData := Ptr 0 0, myWidth := 4, myHeight := 2\<rparr>)
        (caller_heap 48))
     = Some (close ((construct ''cam0'')\<lparr>myData := Ptr 0 0, myWidth := 4, myHeight := 2\<rparr>),
             caller_heap 48)
   \<and> getWidth (close ((construct ''cam0'')\<lparr>myData := Ptr 0 0, myWidth := 4, myHeight := 2\<rparr>)) = 4
   \<and> getHeight (close ((construct ''cam0'')\<lparr>myData := Ptr 0 0, myWidth := 4, myHeight := 2\<rparr>)) = 2"
proof -
  have u: "after (updateVideoDataCopy
       ((construct ''cam0'')\<lparr>myData := Ptr 0 0, myWidth := 4, myHeight := 2\<rparr>)
       (caller_heap 48) (Ptr 0 0) 8 1)
   = Some ((construct ''cam0'')
             \<lparr>myUpdated := True, myWidth := 4, myHeight := 2, myDataAllocated := True,
              myData := Ptr 1 0\<rparr>,
           \<lparr>cells = [Some (replicate 24 127), Some (replicate 24 127)], capacity = 48\<rparr>)"
    by (simp add: after_def updateVideoDataCopy_def construct_def caller_heap_def lock_def
        unlock_def updated_def frame_bytes_def bytesPerPixel_def int_mul_def new_array_def
        used_def memcpy_def overlap_def read_bytes_def write_bytes_def block_def)
  have c: "after (invoke Close ((construct ''cam0'')\<lparr>myData := Ptr 0 0, myWidth := 4, myHeight := 2\<rparr>)
        (caller_heap 48))
     = Some (close ((construct ''cam0'')\<lparr>myData := Ptr 0 0, myWidth := 4, myHeight := 2\<rparr>),
             caller_heap 48)"
    by (simp add: after_def)
  from only_setVideoDataPtr_changes_dimensions
    [of "(construct ''cam0'')\<lparr>myData := Ptr 0 0, myWidth := 4, myHeight := 2\<rparr>"
      "caller_heap 48" "Ptr 0 0" 8 1
      "(construct ''cam0'')
             \<lparr>myUpdated := True, myWidth := 4, myHeight := 2, myDataAllocated := True,
              myData := Ptr 1 0\<rparr>"
      "\<lparr>cells = [Some (replicate 24 127), Some (replicate 24 127)], capacity = 48\<rparr>"
      Close
      "close ((construct ''cam0'')\<lparr>myData := Ptr 0 0, myWidth := 4, myHeight := 2\<rparr>)"
      "caller_heap 48"]
    u c
  show ?thesis by (simp add: getWidth_def getHeight_def close_def construct_def)
qed

end
